theory Spec2Isabelle
  imports Complex_Main "HOL-Library.AList"
begin

section \<open>Enumerations (enums.py)\<close>

text \<open>
  The three \<^verbatim>\<open>Enum\<close> classes are only ever used through \<^verbatim>\<open>.value\<close>, their display
  string, and that string is what the records store and what the comparisons compare.
\<close>

definition UserRole_OPERATOR :: string where
  "UserRole_OPERATOR = ''Operator''"

definition UserRole_SPECTATOR :: string where
  "UserRole_SPECTATOR = ''Spectator''"

definition TournamentStatus_ANNOUNCED :: string where
  "TournamentStatus_ANNOUNCED = ''Announced''"

definition TournamentStatus_OPEN_FOR_REGISTRATION :: string where
  "TournamentStatus_OPEN_FOR_REGISTRATION = ''Open for Registration''"

definition TournamentStatus_IN_PROGRESS :: string where
  "TournamentStatus_IN_PROGRESS = ''In Progress''"

definition TournamentStatus_COMPLETED :: string where
  "TournamentStatus_COMPLETED = ''Completed''"

definition MatchStatus_SCHEDULED :: string where
  "MatchStatus_SCHEDULED = ''Scheduled''"

definition MatchStatus_COMPLETED :: string where
  "MatchStatus_COMPLETED = ''Completed''"

section \<open>Entity records (the dict literals of system.py)\<close>

text \<open>
  Every entity is a Python dict built by one dict literal; its keys are the fields below
  (prefixed by the entity's initial, since several entities share key names). A key that
  one literal sets and another omits, or that is \<^verbatim>\<open>None\<close> at creation, is an option.
  \<^verbatim>\<open>max_players\<close> is a Python int.
\<close>

text \<open>
  \<^verbatim>\<open>cost\<close> is whatever number the caller passes; no operation computes with it. The
  advertiser dashboard passes \<^verbatim>\<open>float(text)\<close>, which also accepts \<^verbatim>\<open>nan\<close> and \<^verbatim>\<open>inf\<close>. A
  Python number is an int, a finite float (the rational it denotes), an infinity or NaN.
\<close>

datatype number = IntNumber int | FloatNumber rat | Infinity | NegInfinity | NaN

record user =
  u_username :: string
  u_password :: string
  u_name :: string
  u_email :: string
  u_role :: string
  u_approved :: bool
  u_registered_date :: "string option"

record league =
  l_league_id :: string
  l_name :: string
  l_game_type :: string
  l_description :: string
  l_owner :: string
  l_created_date :: string
  l_tournaments :: "string list"

record tournament =
  t_tournament_id :: string
  t_league_id :: string
  t_name :: string
  t_start_date :: string
  t_max_players :: int
  t_prize_pool :: string
  t_status :: string
  t_participants :: "string list"
  t_matches :: "string list"
  t_winner :: "string option"
  t_created_by :: string
  t_created_date :: string

record match =
  m_match_id :: string
  m_tournament_id :: string
  m_player1 :: string
  m_player2 :: string
  m_status :: string
  m_winner :: "string option"
  m_score :: string
  m_created_date :: string
  m_completed_date :: "string option"

record advertisement =
  a_ad_id :: string
  a_title :: string
  a_content :: string
  a_cost :: number
  a_advertiser :: string
  a_created_date :: string
  a_active :: bool

section \<open>Python dicts and the persisted document\<close>

text \<open>
  A Python dict keeps its keys in insertion order and \<^verbatim>\<open>len\<close> counts them: an association
  list, looked up with \<^const>\<open>map_of\<close> and stored into with \<^const>\<open>AList.update\<close> (an existing
  key keeps its place, a new key goes to the end).
\<close>

type_synonym 'v dict = "(string \<times> 'v) list"

text \<open>
  The JSON document has five top-level keys, each read back with \<^verbatim>\<open>data.get(key, {})\<close>,
  so each may be absent. The file is absent, or does not parse (the bare \<^verbatim>\<open>except: pass\<close>),
  or holds a document. The JSON text itself is the \<^verbatim>\<open>json\<close> library's business:
  \<^verbatim>\<open>json.dump\<close> writes each value the collections hold (strings, booleans, ints, \<^verbatim>\<open>None\<close>,
  lists, floats, with the tokens \<^verbatim>\<open>NaN\<close>, \<^verbatim>\<open>Infinity\<close> and \<^verbatim>\<open>-Infinity\<close> for the floats that
  JSON has no number for) and \<^verbatim>\<open>json.load\<close> reads each back as the same value, so the
  document of the model holds the values themselves. What a reloaded value compares equal
  to is Python's \<^verbatim>\<open>==\<close>, defined below for numbers.
\<close>

record document =
  d_users :: "user dict option"
  d_leagues :: "league dict option"
  d_tournaments :: "tournament dict option"
  d_matches :: "match dict option"
  d_advertisements :: "advertisement dict option"

datatype file_state = NoFile | Unparsable | Document document

datatype error = TypeError | KeyError

text \<open>
  The attributes of \<^verbatim>\<open>ArenaSystem\<close>. \<^verbatim>\<open>data_file\<close> is the path \<^verbatim>\<open>arena_data.json\<close> in the
  source; here the field holds what the file at that path contains. \<^verbatim>\<open>current_user\<close> is
  the user dict that \<^verbatim>\<open>login\<close> found (\<^verbatim>\<open>None\<close> before the first login).
\<close>

record ArenaSystem =
  users :: "user dict"
  leagues :: "league dict"
  tournaments :: "tournament dict"
  matches :: "match dict"
  advertisements :: "advertisement dict"
  current_user :: "user option"
  data_file :: file_state

section \<open>Data persistence\<close>

definition save_data :: "ArenaSystem \<Rightarrow> ArenaSystem" where
  "save_data s = s\<lparr>data_file := Document
     \<lparr>d_users = Some (users s),
      d_leagues = Some (leagues s),
      d_tournaments = Some (tournaments s),
      d_matches = Some (matches s),
      d_advertisements = Some (advertisements s)\<rparr>\<rparr>"

definition get_or_empty :: "'v dict option \<Rightarrow> 'v dict" where
  "get_or_empty x = (case x of None \<Rightarrow> [] | Some d \<Rightarrow> d)"

definition load_data :: "ArenaSystem \<Rightarrow> ArenaSystem" where
  "load_data s =
     (case data_file s of
        NoFile \<Rightarrow> s
      | Unparsable \<Rightarrow> s
      | Document data \<Rightarrow>
          s\<lparr>users := get_or_empty (d_users data),
            leagues := get_or_empty (d_leagues data),
            tournaments := get_or_empty (d_tournaments data),
            matches := get_or_empty (d_matches data),
            advertisements := get_or_empty (d_advertisements data)\<rparr>)"

definition default_admin :: user where
  "default_admin =
     \<lparr>u_username = ''admin'',
      u_password = ''admin123'',
      u_name = ''System Administrator'',
      u_email = ''admin@arena.com'',
      u_role = UserRole_OPERATOR,
      u_approved = True,
      u_registered_date = None\<rparr>"

text \<open>\<^verbatim>\<open>ArenaSystem.__init__\<close>, given what the data file holds when the process starts.\<close>

definition ArenaSystem_init :: "file_state \<Rightarrow> ArenaSystem" where
  "ArenaSystem_init f =
     (let s = load_data
                \<lparr>users = [], leagues = [], tournaments = [], matches = [],
                 advertisements = [], current_user = None, data_file = f\<rparr>
      in if map_of (users s) ''admin'' = None
         then s\<lparr>users := AList.update ''admin'' default_admin (users s)\<rparr>
         else s)"

section \<open>User management\<close>

text \<open>
  \<^verbatim>\<open>datetime.now().isoformat()\<close> reads the clock; every operation that stamps a date
  takes the reading as its last argument.
\<close>

definition register_user ::
  "ArenaSystem \<Rightarrow> string \<Rightarrow> string \<Rightarrow> string \<Rightarrow> string \<Rightarrow> string \<Rightarrow> string
     \<Rightarrow> (bool \<times> string) \<times> ArenaSystem" where
  "register_user s username password name email role now =
     (if map_of (users s) username \<noteq> None
      then ((False, ''Username already exists''), s)
      else ((True, ''Registration successful. Account pending approval.''),
            save_data (s\<lparr>users := AList.update username
              \<lparr>u_username = username,
               u_password = password,
               u_name = name,
               u_email = email,
               u_role = role,
               u_approved = (if role \<noteq> UserRole_SPECTATOR then False else True),
               u_registered_date = Some now\<rparr> (users s)\<rparr>)))"

definition login :: "ArenaSystem \<Rightarrow> string \<Rightarrow> string \<Rightarrow> (bool \<times> string) \<times> ArenaSystem" where
  "login s username password =
     (case map_of (users s) username of
        None \<Rightarrow> ((False, ''User not found''), s)
      | Some user \<Rightarrow>
          if u_password user \<noteq> password then ((False, ''Invalid password''), s)
          else if \<not> u_approved user then ((False, ''Account not approved yet''), s)
          else ((True, ''Login successful''), s\<lparr>current_user := Some user\<rparr>))"

text \<open>
  \<^verbatim>\<open>approve_user\<close> is the operator dashboard's button handler
  (arena_tournament_system.py): \<^verbatim>\<open>self.system.users[username]["approved"] = True\<close>, then
  \<^verbatim>\<open>save_data\<close>. The subscript raises \<^verbatim>\<open>KeyError\<close> for an unknown username.
\<close>

definition approve_user :: "ArenaSystem \<Rightarrow> string \<Rightarrow> (error + unit) \<times> ArenaSystem" where
  "approve_user s username =
     (case map_of (users s) username of
        None \<Rightarrow> (Inl KeyError, s)
      | Some user \<Rightarrow>
          (Inr (), save_data (s\<lparr>users := AList.update username (user\<lparr>u_approved := True\<rparr>) (users s)\<rparr>)))"

section \<open>Generated ids\<close>

text \<open>
  The f-strings \<^verbatim>\<open>f"LEAGUE_{len(self.leagues) + 1}"\<close> and the like print a positive int in
  decimal.
\<close>

definition digit :: "nat \<Rightarrow> char" where
  "digit d = ''0123456789'' ! d"

fun decimal :: "nat \<Rightarrow> string" where
  "decimal n = (if n < 10 then [digit n] else decimal (n div 10) @ [digit (n mod 10)])"

declare decimal.simps [simp del]

section \<open>League management\<close>

text \<open>
  \<^verbatim>\<open>self.current_user["username"]\<close> is evaluated inside the dict literal, before the
  literal is stored: with \<^verbatim>\<open>current_user = None\<close> the subscript raises \<^verbatim>\<open>TypeError\<close> and
  nothing has been changed.
\<close>

definition create_league ::
  "ArenaSystem \<Rightarrow> string \<Rightarrow> string \<Rightarrow> string \<Rightarrow> string \<Rightarrow> (error + string) \<times> ArenaSystem" where
  "create_league s name game_type description now =
     (let league_id = ''LEAGUE_'' @ decimal (length (leagues s) + 1)
      in case current_user s of
           None \<Rightarrow> (Inl TypeError, s)
         | Some cu \<Rightarrow>
             (Inr league_id,
              save_data (s\<lparr>leagues := AList.update league_id
                \<lparr>l_league_id = league_id,
                 l_name = name,
                 l_game_type = game_type,
                 l_description = description,
                 l_owner = u_username cu,
                 l_created_date = now,
                 l_tournaments = []\<rparr> (leagues s)\<rparr>)))"

section \<open>Tournament management\<close>

definition create_tournament ::
  "ArenaSystem \<Rightarrow> string \<Rightarrow> string \<Rightarrow> string \<Rightarrow> int \<Rightarrow> string \<Rightarrow> string
     \<Rightarrow> (error + string) \<times> ArenaSystem" where
  "create_tournament s league_id name start_date max_players prize_pool now =
     (let tournament_id = ''TOUR_'' @ decimal (length (tournaments s) + 1)
      in case current_user s of
           None \<Rightarrow> (Inl TypeError, s)
         | Some cu \<Rightarrow>
             (let s1 = s\<lparr>tournaments := AList.update tournament_id
                         \<lparr>t_tournament_id = tournament_id,
                          t_league_id = league_id,
                          t_name = name,
                          t_start_date = start_date,
                          t_max_players = max_players,
                          t_prize_pool = prize_pool,
                          t_status = TournamentStatus_ANNOUNCED,
                          t_participants = [],
                          t_matches = [],
                          t_winner = None,
                          t_created_by = u_username cu,
                          t_created_date = now\<rparr> (tournaments s)\<rparr>;
                  s2 = (case map_of (leagues s1) league_id of
                          None \<Rightarrow> s1
                        | Some lg \<Rightarrow>
                            s1\<lparr>leagues := AList.update league_id
                                 (lg\<lparr>l_tournaments := l_tournaments lg @ [tournament_id]\<rparr>)
                                 (leagues s1)\<rparr>)
              in (Inr tournament_id, save_data s2)))"

definition apply_for_tournament ::
  "ArenaSystem \<Rightarrow> string \<Rightarrow> (error + bool \<times> string) \<times> ArenaSystem" where
  "apply_for_tournament s tournament_id =
     (case map_of (tournaments s) tournament_id of
        None \<Rightarrow> (Inr (False, ''Tournament not found''), s)
      | Some tournament \<Rightarrow>
          (case current_user s of
             None \<Rightarrow> (Inl TypeError, s)
           | Some cu \<Rightarrow>
               (let username = u_username cu
                in if username \<in> set (t_participants tournament)
                   then (Inr (False, ''Already registered for this tournament''), s)
                   else if int (length (t_participants tournament)) \<ge> t_max_players tournament
                   then (Inr (False, ''Tournament is full''), s)
                   else (Inr (True, ''Application submitted successfully''),
                         save_data (s\<lparr>tournaments := AList.update tournament_id
                           (tournament\<lparr>t_participants := t_participants tournament @ [username],
                                       t_status := TournamentStatus_OPEN_FOR_REGISTRATION\<rparr>)
                           (tournaments s)\<rparr>)))))"

text \<open>
  The bracket loop \<^verbatim>\<open>for i in range(0, len(participants) - 1, 2)\<close>: the loop state is the
  match collection and the tournament's match-id list. The clock is read once per
  iteration; \<open>clock n\<close> is the reading while match number \<open>n\<close> is built.
\<close>

function create_matches ::
  "string \<Rightarrow> string list \<Rightarrow> (nat \<Rightarrow> string) \<Rightarrow> nat \<Rightarrow> nat
     \<Rightarrow> match dict \<times> string list \<Rightarrow> match dict \<times> string list" where
  "create_matches tournament_id participants clock i match_num (ms, tm) =
     (if int i < int (length participants) - 1
      then (let match_id = tournament_id @ ''_MATCH_'' @ decimal match_num
            in create_matches tournament_id participants clock (i + 2) (match_num + 1)
                 (AList.update match_id
                    \<lparr>m_match_id = match_id,
                     m_tournament_id = tournament_id,
                     m_player1 = participants ! i,
                     m_player2 = (if i + 1 < length participants
                                  then participants ! (i + 1) else ''BYE''),
                     m_status = MatchStatus_SCHEDULED,
                     m_winner = None,
                     m_score = '''',
                     m_created_date = clock match_num,
                     m_completed_date = None\<rparr> ms,
                  tm @ [match_id]))
      else (ms, tm))"
  by pat_completeness auto
termination
  by (relation "measure (\<lambda>(tid, ps, clock, i, n, acc). length ps - i)") auto

declare create_matches.simps [simp del]

definition start_tournament ::
  "ArenaSystem \<Rightarrow> string \<Rightarrow> (nat \<Rightarrow> string) \<Rightarrow> (bool \<times> string) \<times> ArenaSystem" where
  "start_tournament s tournament_id clock =
     (case map_of (tournaments s) tournament_id of
        None \<Rightarrow> ((False, ''Tournament not found''), s)
      | Some tournament \<Rightarrow>
          if length (t_participants tournament) < 2
          then ((False, ''Need at least 2 participants''), s)
          else (let (ms, tm) = create_matches tournament_id (t_participants tournament) clock
                                 0 1 (matches s, t_matches tournament)
                in ((True, ''Tournament started successfully''),
                    save_data (s\<lparr>tournaments := AList.update tournament_id
                                   (tournament\<lparr>t_status := TournamentStatus_IN_PROGRESS,
                                               t_matches := tm\<rparr>)
                                   (tournaments s),
                                 matches := ms\<rparr>))))"

section \<open>Match management\<close>

text \<open>
  \<^verbatim>\<open>self.matches.get(m, {}).get("status") == "Completed"\<close>: an id with no match counts
  as not completed.
\<close>

definition is_completed :: "match dict \<Rightarrow> string \<Rightarrow> bool" where
  "is_completed ms m =
     (case map_of ms m of None \<Rightarrow> False | Some r \<Rightarrow> m_status r = MatchStatus_COMPLETED)"

text \<open>
  The comprehension \<^verbatim>\<open>[self.matches[m].get("winner") for m in ... if
  self.matches[m].get("winner")]\<close>: the subscript raises \<^verbatim>\<open>KeyError\<close> for an id with no
  match; \<^verbatim>\<open>None\<close> and the empty string are falsy.
\<close>

fun winners_of :: "match dict \<Rightarrow> string list \<Rightarrow> error + string list" where
  "winners_of ms [] = Inr []"
| "winners_of ms (m # rest) =
     (case map_of ms m of
        None \<Rightarrow> Inl KeyError
      | Some r \<Rightarrow>
          (case winners_of ms rest of
             Inl e \<Rightarrow> Inl e
           | Inr ws \<Rightarrow>
               (case m_winner r of
                  None \<Rightarrow> Inr ws
                | Some w \<Rightarrow> if w \<noteq> [] then Inr (w # ws) else Inr ws)))"

text \<open>
  The match dict is mutated in place before the tournament is looked up, so a
  \<^verbatim>\<open>KeyError\<close> there (or in the comprehension) leaves the match changed in memory and
  nothing saved.
\<close>

definition record_match_result ::
  "ArenaSystem \<Rightarrow> string \<Rightarrow> string \<Rightarrow> string \<Rightarrow> string
     \<Rightarrow> (error + bool \<times> string) \<times> ArenaSystem" where
  "record_match_result s match_id winner score now =
     (case map_of (matches s) match_id of
        None \<Rightarrow> (Inr (False, ''Match not found''), s)
      | Some match \<Rightarrow>
          (let match' = match\<lparr>m_status := MatchStatus_COMPLETED,
                              m_winner := Some winner,
                              m_score := score,
                              m_completed_date := Some now\<rparr>;
               s1 = s\<lparr>matches := AList.update match_id match' (matches s)\<rparr>
           in case map_of (tournaments s1) (m_tournament_id match') of
                None \<Rightarrow> (Inl KeyError, s1)
              | Some tournament \<Rightarrow>
                  (let completed_matches =
                         length (filter (is_completed (matches s1)) (t_matches tournament))
                   in if completed_matches = length (t_matches tournament)
                      then (case winners_of (matches s1) (t_matches tournament) of
                              Inl e \<Rightarrow> (Inl e, s1)
                            | Inr [] \<Rightarrow> (Inr (True, ''Match result recorded''), save_data s1)
                            | Inr (w # ws) \<Rightarrow>
                                (Inr (True, ''Match result recorded''),
                                 save_data (s1\<lparr>tournaments :=
                                   AList.update (m_tournament_id match')
                                     (tournament\<lparr>t_winner := Some w,
                                                 t_status := TournamentStatus_COMPLETED\<rparr>)
                                     (tournaments s1)\<rparr>)))
                      else (Inr (True, ''Match result recorded''), save_data s1))))"

section \<open>Advertisement management\<close>

definition create_advertisement ::
  "ArenaSystem \<Rightarrow> string \<Rightarrow> string \<Rightarrow> number \<Rightarrow> string \<Rightarrow> (error + string) \<times> ArenaSystem" where
  "create_advertisement s title content cost now =
     (let ad_id = ''AD_'' @ decimal (length (advertisements s) + 1)
      in case current_user s of
           None \<Rightarrow> (Inl TypeError, s)
         | Some cu \<Rightarrow>
             (Inr ad_id,
              save_data (s\<lparr>advertisements := AList.update ad_id
                \<lparr>a_ad_id = ad_id,
                 a_title = title,
                 a_content = content,
                 a_cost = cost,
                 a_advertiser = u_username cu,
                 a_created_date = now,
                 a_active = True\<rparr> (advertisements s)\<rparr>)))"

section \<open>Runs of the system\<close>

text \<open>
  The public operations as a datatype, one constructor per entry point, carrying the call's
  arguments (and the clock reading where the operation stamps a date). \<open>Restart\<close> ends
  the process and constructs a new \<^verbatim>\<open>ArenaSystem\<close> from the data file as it was left. A
  raised exception ends the call and leaves the object as it is at that point, which
  is the state component of the result.
\<close>

datatype op =
    Register string string string string string string
  | Login string string
  | Approve string
  | CreateLeague string string string string
  | CreateTournament string string string int string string
  | Apply string
  | Start string "nat \<Rightarrow> string"
  | Record string string string string
  | CreateAdvertisement string string number string
  | Restart

fun step :: "ArenaSystem \<Rightarrow> op \<Rightarrow> ArenaSystem" where
  "step s (Register username password name email role now) =
     snd (register_user s username password name email role now)"
| "step s (Login username password) = snd (login s username password)"
| "step s (Approve username) = snd (approve_user s username)"
| "step s (CreateLeague name game_type description now) =
     snd (create_league s name game_type description now)"
| "step s (CreateTournament league_id name start_date max_players prize_pool now) =
     snd (create_tournament s league_id name start_date max_players prize_pool now)"
| "step s (Apply tournament_id) = snd (apply_for_tournament s tournament_id)"
| "step s (Start tournament_id clock) = snd (start_tournament s tournament_id clock)"
| "step s (Record match_id winner score now) =
     snd (record_match_result s match_id winner score now)"
| "step s (CreateAdvertisement title content cost now) =
     snd (create_advertisement s title content cost now)"
| "step s Restart = ArenaSystem_init (data_file s)"

definition run :: "ArenaSystem \<Rightarrow> op list \<Rightarrow> ArenaSystem" where
  "run s ops = foldl step s ops"

text \<open>A sequence of \<^verbatim>\<open>register_user\<close> calls, with the result and the store after each.\<close>

fun register_calls ::
  "ArenaSystem \<Rightarrow> (string \<times> string \<times> string \<times> string \<times> string \<times> string) list
     \<Rightarrow> ((bool \<times> string) \<times> ArenaSystem) list" where
  "register_calls s [] = []"
| "register_calls s ((username, password, name, email, role, now) # calls) =
     (let r = register_user s username password name email role now
      in r # register_calls (snd r) calls)"

section \<open>Properties named by the specification\<close>

text \<open>The five collections of a store, as the persistence round trip compares them.\<close>

definition collections ::
  "ArenaSystem \<Rightarrow> user dict \<times> league dict \<times> tournament dict \<times> match dict \<times> advertisement dict" where
  "collections s = (users s, leagues s, tournaments s, matches s, advertisements s)"

definition fresh_store :: "file_state \<Rightarrow> ArenaSystem" where
  "fresh_store f =
     \<lparr>users = [], leagues = [], tournaments = [], matches = [],
      advertisements = [], current_user = None, data_file = f\<rparr>"

text \<open>
  A match has a recorded winner when its \<^verbatim>\<open>winner\<close> is a non-empty string; the tournament's
  winner is taken from the first such match of its match-id list.
\<close>

definition recorded_winner :: "match dict \<Rightarrow> string \<Rightarrow> string option" where
  "recorded_winner ms m =
     (case map_of ms m of
        None \<Rightarrow> None
      | Some r \<Rightarrow> (case m_winner r of None \<Rightarrow> None | Some w \<Rightarrow> if w = [] then None else Some w))"

fun first_recorded_winner :: "match dict \<Rightarrow> string list \<Rightarrow> string option" where
  "first_recorded_winner ms [] = None"
| "first_recorded_winner ms (m # rest) =
     (case recorded_winner ms m of None \<Rightarrow> first_recorded_winner ms rest | Some w \<Rightarrow> Some w)"

definition all_completed :: "match dict \<Rightarrow> string list \<Rightarrow> bool" where
  "all_completed ms ids = list_all (is_completed ms) ids"

text \<open>The roster of a tournament: no username twice, and no more than the capacity allows.\<close>

definition roster_ok :: "tournament \<Rightarrow> bool" where
  "roster_ok t =
     (distinct (t_participants t) \<and> int (length (t_participants t)) \<le> max 0 (t_max_players t))"

text \<open>
  Python's \<^verbatim>\<open>==\<close> on numbers: ints and finite floats compare by value, an infinity equals
  itself, and NaN equals nothing, itself included.
\<close>

fun number_eq :: "number \<Rightarrow> number \<Rightarrow> bool" where
  "number_eq (IntNumber a) (IntNumber b) = (a = b)"
| "number_eq (IntNumber a) (FloatNumber r) = (of_int a = r)"
| "number_eq (FloatNumber r) (IntNumber b) = (r = of_int b)"
| "number_eq (FloatNumber r) (FloatNumber q) = (r = q)"
| "number_eq Infinity Infinity = True"
| "number_eq NegInfinity NegInfinity = True"
| "number_eq _ _ = False"

text \<open>
  Per-field equality of two stores' collections. Only an advertisement's cost can be a
  float, so only there does \<^verbatim>\<open>==\<close> differ from being the same value; the advertisements
  are compared entry by entry, key with key and field with field.
\<close>

definition advertisement_eq :: "advertisement \<Rightarrow> advertisement \<Rightarrow> bool" where
  "advertisement_eq a b =
     (a_ad_id a = a_ad_id b \<and> a_title a = a_title b \<and> a_content a = a_content b
      \<and> number_eq (a_cost a) (a_cost b) \<and> a_advertiser a = a_advertiser b
      \<and> a_created_date a = a_created_date b \<and> a_active a = a_active b)"

definition advertisements_eq :: "advertisement dict \<Rightarrow> advertisement dict \<Rightarrow> bool" where
  "advertisements_eq xs ys =
     list_all2 (\<lambda>x y. fst x = fst y \<and> advertisement_eq (snd x) (snd y)) xs ys"

definition collections_eq :: "ArenaSystem \<Rightarrow> ArenaSystem \<Rightarrow> bool" where
  "collections_eq s s' =
     (users s = users s' \<and> leagues s = leagues s' \<and> tournaments s = tournaments s'
      \<and> matches s = matches s' \<and> advertisements_eq (advertisements s) (advertisements s'))"

definition no_nan_cost :: "ArenaSystem \<Rightarrow> bool" where
  "no_nan_cost s = list_all (\<lambda>x. a_cost (snd x) \<noteq> NaN) (advertisements s)"

section \<open>A worked scenario\<close>

definition first_run :: ArenaSystem where
  "first_run = ArenaSystem_init NoFile"

definition noon :: "nat \<Rightarrow> string" where
  "noon n = ''2024-03-01T12:00:00''"

definition enter :: "string \<Rightarrow> op list" where
  "enter u = [Register u ''pw'' u ''u@arena.com'' ''Spectator'' ''2024-02-01T09:00:00'',
              Login u ''pw'', Apply ''TOUR_1'']"

definition cup_announced :: ArenaSystem where
  "cup_announced = run first_run
     [Login ''admin'' ''admin123'',
      CreateTournament ''LEAGUE_1'' ''Cup'' ''2024-03-01'' 8 ''100'' ''2024-01-15T10:00:00'']"

definition cup_one :: ArenaSystem where
  "cup_one = run cup_announced (enter ''A'')"

definition cup_two :: ArenaSystem where
  "cup_two = run cup_one (enter ''B'')"

definition cup_three :: ArenaSystem where
  "cup_three = run cup_two (enter ''C'')"

definition cup_four :: ArenaSystem where
  "cup_four = run cup_three (enter ''D'')"

definition cup_started :: ArenaSystem where
  "cup_started = run cup_two [Start ''TOUR_1'' noon]"

definition cup_done :: ArenaSystem where
  "cup_done = run cup_started [Record ''TOUR_1_MATCH_1'' ''A'' ''2-1'' ''2024-03-01T13:00:00'']"

definition edited_admin :: user where
  "edited_admin =
     \<lparr>u_username = ''admin'', u_password = ''changed'', u_name = ''Root'',
      u_email = ''root@arena.com'', u_role = ''Player'', u_approved = False,
      u_registered_date = None\<rparr>"

definition edited_document :: document where
  "edited_document =
     \<lparr>d_users = Some [(''admin'', edited_admin)], d_leagues = None,
      d_tournaments = None, d_matches = None, d_advertisements = None\<rparr>"

text \<open>
  A user record is held by a store when the store's users map the username to it and the
  saved document does too, so that it survives a restart.
\<close>

definition holds_user :: "ArenaSystem \<Rightarrow> string \<Rightarrow> user \<Rightarrow> bool" where
  "holds_user s username r =
     (map_of (users s) username = Some r
      \<and> (case data_file s of
            Document d \<Rightarrow> map_of (get_or_empty (d_users d)) username = Some r
          | _ \<Rightarrow> False))"

definition three_calls :: "(string \<times> string \<times> string \<times> string \<times> string \<times> string) list" where
  "three_calls =
     [(''A'', ''pw'', ''Ann'', ''a@arena.com'', ''Player'', ''t1''),
        (''B'', ''pw'', ''Bob'', ''b@arena.com'', ''Spectator'', ''t2''),
        (''C'', ''pw'', ''Cy'', ''c@arena.com'', ''Advertiser'', ''t3'')]"

definition meanwhile :: "op list" where
  "meanwhile = [Login ''A'' ''pw'', Register ''B'' ''pw'' ''Bob'' ''b@arena.com'' ''Spectator'' ''t2'',
     Login ''B'' ''pw'', Restart, Approve ''B'']"

definition pending :: "ArenaSystem" where
  "pending = run (snd (register_user first_run ''A'' ''pw'' ''Ann'' ''a@arena.com'' ''Player'' ''t1'')) meanwhile"

definition cup_started_match :: match where
  "cup_started_match =
     \<lparr>m_match_id = ''TOUR_1_MATCH_1'', m_tournament_id = ''TOUR_1'', m_player1 = ''A'',
      m_player2 = ''B'', m_status = ''Scheduled'', m_winner = None, m_score = '''',
      m_created_date = ''2024-03-01T12:00:00'', m_completed_date = None\<rparr>"

definition cup_started_tournament :: tournament where
  "cup_started_tournament =
     \<lparr>t_tournament_id = ''TOUR_1'', t_league_id = ''LEAGUE_1'', t_name = ''Cup'',
      t_start_date = ''2024-03-01'', t_max_players = 8, t_prize_pool = ''100'',
      t_status = ''In Progress'', t_participants = [''A'', ''B''],
      t_matches = [''TOUR_1_MATCH_1''], t_winner = None,
      t_created_by = ''admin'', t_created_date = ''2024-01-15T10:00:00''\<rparr>"

definition no_winner :: ArenaSystem where
  "no_winner = snd (record_match_result cup_started ''TOUR_1_MATCH_1'' '''' ''0-0''
                      ''2024-03-01T13:00:00'')"

definition rematch :: ArenaSystem where
  "rematch = snd (record_match_result cup_done ''TOUR_1_MATCH_1'' ''B'' ''0-2''
                    ''2024-03-02T13:00:00'')"

definition cup_done_match :: match where
  "cup_done_match =
     cup_started_match\<lparr>m_status := ''Completed'', m_winner := Some ''A'',
       m_score := ''2-1'', m_completed_date := Some ''2024-03-01T13:00:00''\<rparr>"

definition cup_done_tournament :: tournament where
  "cup_done_tournament =
     cup_started_tournament\<lparr>t_winner := Some ''A'', t_status := ''Completed''\<rparr>"

text \<open>
  The roster invariant of a store: it holds for every tournament in memory and for every
  tournament of the saved document, from which a restart reads them back.
\<close>

definition rosters_ok :: "ArenaSystem \<Rightarrow> bool" where
  "rosters_ok s =
     (list_all (\<lambda>(k, t). roster_ok t) (tournaments s)
      \<and> (case data_file s of
            Document d \<Rightarrow> list_all (\<lambda>(k, t). roster_ok t) (get_or_empty (d_tournaments d))
          | _ \<Rightarrow> True))"

definition negative_cup :: ArenaSystem where
  "negative_cup = run first_run
     [Login ''admin'' ''admin123'',
      CreateTournament ''LEAGUE_1'' ''Cup'' ''2024-03-01'' (- 1) ''100'' ''2024-01-15T10:00:00'']"

definition negative_cup_tournament :: tournament where
  "negative_cup_tournament =
     \<lparr>t_tournament_id = ''TOUR_1'', t_league_id = ''LEAGUE_1'', t_name = ''Cup'',
      t_start_date = ''2024-03-01'', t_max_players = - 1, t_prize_pool = ''100'',
      t_status = ''Announced'', t_participants = [], t_matches = [], t_winner = None,
      t_created_by = ''admin'', t_created_date = ''2024-01-15T10:00:00''\<rparr>"

definition cup_two_ops :: "op list" where
  "cup_two_ops =
     [Login ''admin'' ''admin123'',
      CreateTournament ''LEAGUE_1'' ''Cup'' ''2024-03-01'' 8 ''100'' ''2024-01-15T10:00:00'']
     @ enter ''A'' @ enter ''B''"

definition cup_two_tournament :: tournament where
  "cup_two_tournament =
     \<lparr>t_tournament_id = ''TOUR_1'', t_league_id = ''LEAGUE_1'', t_name = ''Cup'',
      t_start_date = ''2024-03-01'', t_max_players = 8, t_prize_pool = ''100'',
      t_status = ''Open for Registration'', t_participants = [''A'', ''B''],
      t_matches = [], t_winner = None,
      t_created_by = ''admin'', t_created_date = ''2024-01-15T10:00:00''\<rparr>"

definition cup_one_tournament :: tournament where
  "cup_one_tournament =
     \<lparr>t_tournament_id = ''TOUR_1'', t_league_id = ''LEAGUE_1'', t_name = ''Cup'',
      t_start_date = ''2024-03-01'', t_max_players = 8, t_prize_pool = ''100'',
      t_status = ''Open for Registration'', t_participants = [''A''],
      t_matches = [], t_winner = None,
      t_created_by = ''admin'', t_created_date = ''2024-01-15T10:00:00''\<rparr>"

definition user_A :: user where
  "user_A =
     \<lparr>u_username = ''A'', u_password = ''pw'', u_name = ''A'', u_email = ''u@arena.com'',
      u_role = ''Spectator'', u_approved = True,
      u_registered_date = Some ''2024-02-01T09:00:00''\<rparr>"

definition full_cup :: ArenaSystem where
  "full_cup = run first_run
     [Login ''admin'' ''admin123'',
      CreateTournament ''LEAGUE_1'' ''Duel'' ''2024-03-01'' 1 ''100'' ''2024-01-15T10:00:00'',
      Apply ''TOUR_1'',
      Register ''A'' ''pw'' ''A'' ''u@arena.com'' ''Spectator'' ''2024-02-01T09:00:00'',
      Login ''A'' ''pw'']"

definition full_cup_tournament :: tournament where
  "full_cup_tournament =
     \<lparr>t_tournament_id = ''TOUR_1'', t_league_id = ''LEAGUE_1'', t_name = ''Duel'',
      t_start_date = ''2024-03-01'', t_max_players = 1, t_prize_pool = ''100'',
      t_status = ''Open for Registration'', t_participants = [''admin''],
      t_matches = [], t_winner = None,
      t_created_by = ''admin'', t_created_date = ''2024-01-15T10:00:00''\<rparr>"

definition admin_call :: "(string \<times> string \<times> string \<times> string \<times> string \<times> string) list" where
  "admin_call =
     [(''admin'', ''x'', ''Eve'', ''e@arena.com'', ''Player'', ''2024-02-01T09:00:00'')]"

definition sale_ops :: "op list" where
  "sale_ops =
     [Login ''admin'' ''admin123'',
      CreateLeague ''Premier'' ''chess'' ''Open league'' ''2024-01-15T10:00:00'',
      CreateAdvertisement ''Sale'' ''Boards'' (FloatNumber 5) ''2024-01-16T10:00:00'']
     @ enter ''A''"

definition sale_store :: ArenaSystem where
  "sale_store = run (ArenaSystem_init NoFile) sale_ops"

definition nan_store :: ArenaSystem where
  "nan_store = run first_run
     [Login ''admin'' ''admin123'',
      CreateAdvertisement ''Sale'' ''Boards'' NaN ''2024-01-16T10:00:00'']"

definition nan_advertisement :: advertisement where
  "nan_advertisement =
     \<lparr>a_ad_id = ''AD_1'', a_title = ''Sale'', a_content = ''Boards'', a_cost = NaN,
      a_advertiser = ''admin'', a_created_date = ''2024-01-16T10:00:00'', a_active = True\<rparr>"

section \<open>Association lists and saved fields\<close>

lemma map_of_update:
  "map_of (AList.update k v al) k' = (if k' = k then Some v else map_of al k')"
  by (simp add: update_conv')

lemma length_update_fresh:
  "map_of al k = None \<Longrightarrow> length (AList.update k v al) = Suc (length al)"
  by (induction al) (auto split: if_splits)

lemma save_data_fields [simp]:
  "users (save_data s) = users s"
  "leagues (save_data s) = leagues s"
  "tournaments (save_data s) = tournaments s"
  "matches (save_data s) = matches s"
  "advertisements (save_data s) = advertisements s"
  "current_user (save_data s) = current_user s"
  by (simp_all add: save_data_def)

section \<open>The scenario, evaluated\<close>

lemmas op_defs =
  run_def enter_def login_def register_user_def create_tournament_def apply_for_tournament_def
  start_tournament_def record_match_result_def save_data_def Let_def
  UserRole_SPECTATOR_def UserRole_OPERATOR_def TournamentStatus_ANNOUNCED_def
  TournamentStatus_OPEN_FOR_REGISTRATION_def TournamentStatus_IN_PROGRESS_def
  TournamentStatus_COMPLETED_def MatchStatus_SCHEDULED_def MatchStatus_COMPLETED_def
  decimal.simps digit_def is_completed_def

lemma first_run_eval:
  "first_run = \<lparr>users = [(''admin'', default_admin)], leagues = [], tournaments = [],
      matches = [], advertisements = [], current_user = None, data_file = NoFile\<rparr>"
  by (simp add: first_run_def ArenaSystem_init_def load_data_def)

lemmas scenario_defs =
  cup_four_def cup_three_def cup_two_def cup_one_def cup_announced_def first_run_eval
  default_admin_def

lemma cup_one_eval:
  "tournaments cup_one =
    [(''TOUR_1'', \<lparr>t_tournament_id = ''TOUR_1'', t_league_id = ''LEAGUE_1'', t_name = ''Cup'',
       t_start_date = ''2024-03-01'', t_max_players = 8, t_prize_pool = ''100'',
       t_status = ''Open for Registration'', t_participants = [''A''],
       t_matches = [], t_winner = None,
       t_created_by = ''admin'', t_created_date = ''2024-01-15T10:00:00''\<rparr>)]"
  by (simp add: scenario_defs op_defs)

lemma cup_three_eval:
  "tournaments cup_three =
    [(''TOUR_1'', \<lparr>t_tournament_id = ''TOUR_1'', t_league_id = ''LEAGUE_1'', t_name = ''Cup'',
       t_start_date = ''2024-03-01'', t_max_players = 8, t_prize_pool = ''100'',
       t_status = ''Open for Registration'', t_participants = [''A'', ''B'', ''C''],
       t_matches = [], t_winner = None,
       t_created_by = ''admin'', t_created_date = ''2024-01-15T10:00:00''\<rparr>)]"
  "matches cup_three = []"
  by (simp_all add: scenario_defs op_defs)

lemma cup_four_eval:
  "tournaments cup_four =
    [(''TOUR_1'', \<lparr>t_tournament_id = ''TOUR_1'', t_league_id = ''LEAGUE_1'', t_name = ''Cup'',
       t_start_date = ''2024-03-01'', t_max_players = 8, t_prize_pool = ''100'',
       t_status = ''Open for Registration'', t_participants = [''A'', ''B'', ''C'', ''D''],
       t_matches = [], t_winner = None,
       t_created_by = ''admin'', t_created_date = ''2024-01-15T10:00:00''\<rparr>)]"
  "matches cup_four = []"
  by (simp_all add: scenario_defs op_defs)

section \<open>Bracket generation\<close>

lemma start_tournament_four:
  "map (\<lambda>(k, m). (k, m_player1 m, m_player2 m, m_status m))
     (matches (snd (start_tournament cup_four ''TOUR_1'' noon))) =
   [(''TOUR_1_MATCH_1'', ''A'', ''B'', ''Scheduled''), (''TOUR_1_MATCH_2'', ''C'', ''D'', ''Scheduled'')]"
  by (simp add: cup_four_eval start_tournament_def create_matches.simps save_data_def
      MatchStatus_SCHEDULED_def decimal.simps digit_def Let_def)

lemma create_matches_count:
  "length (snd (create_matches tid ps clock i n (ms, tm))) = length tm + (length ps - i) div 2"
proof (induction tid ps clock i n "(ms, tm)" arbitrary: ms tm rule: create_matches.induct)
  case (1 tid ps clock i n ms tm)
  show ?case
  proof (cases "int i < int (length ps) - 1")
    case True
    then have "(length ps - i) div 2 = Suc ((length ps - (i + 2)) div 2)" by linarith
    with True 1 show ?thesis
      by (subst create_matches.simps) (simp add: Let_def)
  next
    case False
    then have "(length ps - i) div 2 = 0" by auto
    with False show ?thesis
      by (subst create_matches.simps) simp
  qed
qed

text \<open>
  C1. The claim: participants are paired two at a time in registration order, one
  \<open>Scheduled\<close> match per pair, and with an odd count the last participant is matched
  against \<open>BYE\<close>, so that \<open>[A, B, C]\<close> gives the two matches \<open>(A, B)\<close> and \<open>(C, BYE)\<close>.
  The code at \<open>[A, B, C]\<close>: the loop runs over \<open>range(0, len - 1, 2)\<close>, which is \<open>[0]\<close>, so
  the only match is \<open>(A, B)\<close> and \<open>C\<close> is in no match; the \<open>BYE\<close> branch of the loop body
  is never taken (\<open>create_matches_count\<close>: the loop adds \<open>len div 2\<close> matches).
\<close>

theorem start_tournament_three:
  "map (\<lambda>(k, t). t_participants t) (tournaments cup_three) = [[''A'', ''B'', ''C'']]
   \<and> fst (start_tournament cup_three ''TOUR_1'' noon) = (True, ''Tournament started successfully'')
   \<and> map (\<lambda>(k, m). (k, m_player1 m, m_player2 m, m_status m))
       (matches (snd (start_tournament cup_three ''TOUR_1'' noon))) =
     [(''TOUR_1_MATCH_1'', ''A'', ''B'', ''Scheduled'')]"
  by (simp add: cup_three_eval start_tournament_def create_matches.simps save_data_def
      MatchStatus_SCHEDULED_def decimal.simps digit_def Let_def)

text \<open>
  C7. For a tournament with fewer than 2 participants \<open>start_tournament\<close> returns the
  failure \<open>Need at least 2 participants\<close> and changes nothing: the store it returns is the
  store it was given (tournament status and match list, match collection, saved file).
\<close>

theorem start_tournament_insufficient:
  assumes "map_of (tournaments s) tournament_id = Some t"
    and "length (t_participants t) < 2"
  shows "start_tournament s tournament_id clock = ((False, ''Need at least 2 participants''), s)"
  using assms by (simp add: start_tournament_def)

text \<open>C7 at the tournament of the scenario with its single participant \<open>A\<close>.\<close>

theorem start_tournament_insufficient_witness:
  "map_of (tournaments cup_one) ''TOUR_1'' \<noteq> None
   \<and> map (\<lambda>(k, t). length (t_participants t)) (tournaments cup_one) = [1]
   \<and> start_tournament cup_one ''TOUR_1'' noon = ((False, ''Need at least 2 participants''), cup_one)"
  using start_tournament_insufficient [of cup_one "''TOUR_1''" _ noon]
  by (simp add: cup_one_eval)

section \<open>Creation without a current user\<close>

text \<open>
  C2, as stated, fails: on the first-run store, where nobody has logged in,
  \<open>create_league\<close> does not return an error result, it raises \<open>TypeError\<close>.
\<close>

theorem create_league_without_login:
  "fst (create_league first_run ''Premier'' ''chess'' ''Open league'' ''2024-01-15T10:00:00'')
     = Inl TypeError"
  by (simp add: create_league_def first_run_eval Let_def)

text \<open>
  C2, amended. \<open>create_league\<close>, \<open>create_tournament\<close> and \<open>create_advertisement\<close> do not check
  for a current user: with none, each raises \<open>TypeError\<close> and leaves the store and the saved
  file as they were; with one, each returns the id it generated.
\<close>

theorem creation_without_login_raises:
  "(current_user s = None \<longrightarrow>
      create_league s name game_type description now = (Inl TypeError, s)
      \<and> create_tournament s league_id name start_date max_players prize_pool now = (Inl TypeError, s)
      \<and> create_advertisement s title content cost now = (Inl TypeError, s))
   \<and> (current_user s \<noteq> None \<longrightarrow>
      fst (create_league s name game_type description now)
        = Inr (''LEAGUE_'' @ decimal (length (leagues s) + 1))
      \<and> fst (create_tournament s league_id name start_date max_players prize_pool now)
        = Inr (''TOUR_'' @ decimal (length (tournaments s) + 1))
      \<and> fst (create_advertisement s title content cost now)
        = Inr (''AD_'' @ decimal (length (advertisements s) + 1)))"
  by (auto simp add: create_league_def create_tournament_def create_advertisement_def Let_def)

text \<open>C2, amended, on the first-run store and on the scenario after the admin's login.\<close>

theorem creation_without_login_raises_witness:
  "create_league first_run ''Premier'' ''chess'' ''Open league'' ''t'' = (Inl TypeError, first_run)
   \<and> create_tournament first_run ''LEAGUE_1'' ''Cup'' ''2024-03-01'' 8 ''100'' ''t'' = (Inl TypeError, first_run)
   \<and> create_advertisement first_run ''Sale'' ''Buy'' (FloatNumber 5) ''t''
       = (Inl TypeError, first_run)
   \<and> fst (create_league cup_announced ''Premier'' ''chess'' ''Open league'' ''t'') = Inr ''LEAGUE_1''
   \<and> fst (create_tournament cup_announced ''LEAGUE_1'' ''Cup'' ''2024-03-01'' 8 ''100'' ''t'') = Inr ''TOUR_2''
   \<and> fst (create_advertisement cup_announced ''Sale'' ''Buy'' (FloatNumber 5) ''t'')
       = Inr ''AD_1''"
  using creation_without_login_raises [of first_run "''Premier''" "''chess''" "''Open league''" "''t''"
      "''LEAGUE_1''" "''2024-03-01''" 8 "''100''" "''Sale''" "''Buy''" "FloatNumber 5"]
    creation_without_login_raises [of cup_announced "''Premier''" "''chess''" "''Open league''" "''t''"
      "''LEAGUE_1''" "''2024-03-01''" 8 "''100''" "''Sale''" "''Buy''" "FloatNumber 5"]
  by (simp add: scenario_defs op_defs)

section \<open>Bootstrap\<close>

text \<open>
  C9. On a first run (no data file, a file that does not parse, or a document with no
  users) the store holds exactly one user, \<open>admin\<close>, with the fixed password, the role
  \<open>Operator\<close> and \<open>approved\<close> set. When the loaded document already has a user under
  \<open>admin\<close>, the loaded users are kept as they are: the account is neither added again nor
  overwritten, whatever its fields hold.
\<close>

theorem bootstrap_contract:
  "((f = NoFile \<or> f = Unparsable \<or> (\<exists>d. f = Document d \<and> get_or_empty (d_users d) = []))
      \<longrightarrow> users (ArenaSystem_init f) =
            [(''admin'', \<lparr>u_username = ''admin'', u_password = ''admin123'',
                          u_name = ''System Administrator'', u_email = ''admin@arena.com'',
                          u_role = ''Operator'', u_approved = True,
                          u_registered_date = None\<rparr>)])
   \<and> ((f = Document d \<and> map_of (get_or_empty (d_users d)) ''admin'' \<noteq> None)
      \<longrightarrow> users (ArenaSystem_init f) = get_or_empty (d_users d))"
  by (auto simp add: ArenaSystem_init_def load_data_def default_admin_def UserRole_OPERATOR_def
      Let_def)

text \<open>
  C9 with no data file, and with a document whose \<open>admin\<close> has been edited (another
  password, another role, not approved).
\<close>

theorem bootstrap_contract_witness:
  "users (ArenaSystem_init NoFile) =
     [(''admin'', \<lparr>u_username = ''admin'', u_password = ''admin123'',
                   u_name = ''System Administrator'', u_email = ''admin@arena.com'',
                   u_role = ''Operator'', u_approved = True,
                   u_registered_date = None\<rparr>)]
   \<and> map_of (get_or_empty (d_users edited_document)) ''admin'' = Some edited_admin
   \<and> users (ArenaSystem_init (Document edited_document)) = [(''admin'', edited_admin)]"
  using bootstrap_contract [of NoFile]
    bootstrap_contract [of "Document edited_document" edited_document]
  by (simp add: edited_document_def get_or_empty_def)

section \<open>Registration\<close>

lemma register_user_fresh:
  assumes "map_of (users s) username = None"
  shows "fst (register_user s username password name email role now)
           = (True, ''Registration successful. Account pending approval.'')"
    and "length (users (snd (register_user s username password name email role now)))
           = Suc (length (users s))"
    and "map_of (users (snd (register_user s username password name email role now))) u
           = (if u = username
              then Some \<lparr>u_username = username, u_password = password, u_name = name,
                         u_email = email, u_role = role,
                         u_approved = (role = UserRole_SPECTATOR),
                         u_registered_date = Some now\<rparr>
              else map_of (users s) u)"
  using assms by (simp_all add: register_user_def length_update_fresh map_of_update)

lemma register_calls_fresh:
  assumes "distinct (map fst calls)"
    and "\<forall>c\<in>set calls. map_of (users s) (fst c) = None"
  shows "length (register_calls s calls) = length calls
     \<and> (\<forall>i<length calls.
           fst (register_calls s calls ! i)
             = (True, ''Registration successful. Account pending approval.'')
           \<and> length (users (snd (register_calls s calls ! i))) = length (users s) + i + 1)"
  using assms
proof (induction calls arbitrary: s)
  case Nil
  then show ?case by simp
next
  case (Cons c calls)
  obtain username password name email role now where c: "c = (username, password, name, email, role, now)"
    by (cases c) auto
  define r where "r = register_user s username password name email role now"
  from Cons.prems c have fresh: "map_of (users s) username = None" by simp
  have ok: "fst r = (True, ''Registration successful. Account pending approval.'')"
    and len: "length (users (snd r)) = Suc (length (users s))"
    unfolding r_def using register_user_fresh [OF fresh] by simp_all
  have rest_fresh: "\<forall>c'\<in>set calls. map_of (users (snd r)) (fst c') = None"
  proof
    fix c' assume mem: "c' \<in> set calls"
    with Cons.prems c have "fst c' \<noteq> username" by force
    moreover from mem Cons.prems have "map_of (users s) (fst c') = None" by simp
    ultimately show "map_of (users (snd r)) (fst c') = None"
      unfolding r_def using register_user_fresh(3) [OF fresh] by simp
  qed
  from Cons.prems have "distinct (map fst calls)" by simp
  from Cons.IH [OF this rest_fresh]
  have IH_len: "length (register_calls (snd r) calls) = length calls"
    and IH: "\<And>i. i < length calls \<Longrightarrow>
           fst (register_calls (snd r) calls ! i)
             = (True, ''Registration successful. Account pending approval.'')
           \<and> length (users (snd (register_calls (snd r) calls ! i))) = length (users (snd r)) + i + 1"
    by simp_all
  have unfold: "register_calls s (c # calls) = r # register_calls (snd r) calls"
    by (simp add: c r_def Let_def)
  show ?case
  proof (intro conjI allI impI)
    show "length (register_calls s (c # calls)) = length (c # calls)"
      by (simp add: unfold IH_len)
  next
    fix i assume "i < length (c # calls)"
    then show "fst (register_calls s (c # calls) ! i)
        = (True, ''Registration successful. Account pending approval.'')"
      using ok IH by (cases i) (simp_all add: unfold)
  next
    fix i assume "i < length (c # calls)"
    then show "length (users (snd (register_calls s (c # calls) ! i))) = length (users s) + i + 1"
      using len IH by (cases i) (simp_all add: unfold)
  qed
qed

text \<open>
  C5, as stated, fails: on the first-run store the one-call sequence registering \<open>admin\<close>
  has pairwise distinct usernames, and its call fails with \<open>Username already exists\<close>
  and adds no user, because the bootstrap has already taken the name.
\<close>

theorem register_admin_on_first_run:
  "distinct (map fst admin_call)
   \<and> map fst (register_calls first_run admin_call) = [(False, ''Username already exists'')]
   \<and> map (length \<circ> users \<circ> snd) (register_calls first_run admin_call)
       = [length (users first_run)]"
  by (simp add: admin_call_def first_run_eval register_user_def Let_def)

text \<open>
  C5, amended. In a sequence of \<open>register_user\<close> calls whose usernames are pairwise distinct and not
  yet in the store, every call succeeds and after the \<open>i\<close>-th call (from 0) the store has
  \<open>i + 1\<close> users more than at the start: one more per call. A call with a username that
  the store already has returns the failure \<open>Username already exists\<close> and the store it
  was given, unchanged.
\<close>

theorem register_user_contract:
  "((distinct (map fst calls) \<and> (\<forall>c\<in>set calls. map_of (users s) (fst c) = None))
      \<longrightarrow> length (register_calls s calls) = length calls
          \<and> (\<forall>i<length calls.
                fst (register_calls s calls ! i)
                  = (True, ''Registration successful. Account pending approval.'')
                \<and> length (users (snd (register_calls s calls ! i)))
                    = length (users s) + i + 1))
   \<and> (map_of (users s) username \<noteq> None
      \<longrightarrow> register_user s username password name email role now
            = ((False, ''Username already exists''), s))"
  using register_calls_fresh [of calls s] by (simp add: register_user_def)

text \<open>
  C5, amended, on the first-run store: three new usernames, then \<open>admin\<close>, which the bootstrap has
  already taken.
\<close>

theorem register_user_contract_witness:
  "distinct (map fst three_calls)
   \<and> map (\<lambda>c. map_of (users first_run) (fst c)) three_calls = [None, None, None]
   \<and> map (fst \<circ> fst) (register_calls first_run three_calls) = [True, True, True]
   \<and> map (length \<circ> users \<circ> snd) (register_calls first_run three_calls) = [2, 3, 4]
   \<and> map_of (users first_run) ''admin'' \<noteq> None
   \<and> register_user first_run ''admin'' ''x'' ''Eve'' ''e@arena.com'' ''Player'' ''t4''
       = ((False, ''Username already exists''), first_run)"
  using register_user_contract [of three_calls first_run "''admin''" "''x''" "''Eve''"
      "''e@arena.com''" "''Player''" "''t4''"]
  by (simp add: three_calls_def first_run_eval register_user_def Let_def)

section \<open>Approval\<close>

lemma holds_user_register:
  assumes "map_of (users s) username = None"
  shows "holds_user (snd (register_user s username password name email role now)) username
           \<lparr>u_username = username, u_password = password, u_name = name,
            u_email = email, u_role = role, u_approved = (role = UserRole_SPECTATOR),
            u_registered_date = Some now\<rparr>"
  using assms
  by (simp add: holds_user_def register_user_def save_data_def map_of_update get_or_empty_def)

lemma holds_user_save:
  "map_of (users s) u = Some r \<Longrightarrow> holds_user (save_data s) u r"
  by (simp add: holds_user_def save_data_def get_or_empty_def)

lemma holds_user_same:
  "holds_user s u r \<Longrightarrow> users s' = users s \<Longrightarrow> data_file s' = data_file s \<Longrightarrow> holds_user s' u r"
  by (simp add: holds_user_def)

lemma holds_user_init:
  assumes "holds_user s u r"
  shows "holds_user (ArenaSystem_init (data_file s)) u r"
proof -
  from assms obtain d where d: "data_file s = Document d"
    and m: "map_of (get_or_empty (d_users d)) u = Some r"
    by (auto simp add: holds_user_def split: file_state.splits)
  show ?thesis
    using m by (auto simp add: holds_user_def ArenaSystem_init_def load_data_def d Let_def map_of_update)
qed

lemma holds_user_update [simp]:
  "holds_user (s\<lparr>current_user := c\<rparr>) u r = holds_user s u r"
  "holds_user (s\<lparr>matches := ms\<rparr>) u r = holds_user s u r"
  by (simp_all add: holds_user_def)

lemma holds_user_step:
  assumes "holds_user s u r" and "op \<noteq> Approve u"
  shows "holds_user (step s op) u r"
proof -
  from assms have m: "map_of (users s) u = Some r" by (simp add: holds_user_def)
  show ?thesis
  proof (cases op)
    case (Register username password name email role now)
    with assms m show ?thesis
      by (auto simp add: register_user_def map_of_update intro!: holds_user_save)
  next
    case (Login username password)
    with assms show ?thesis
      by (auto simp add: login_def split: option.splits)
  next
    case (Approve username)
    with assms m show ?thesis
      by (auto simp add: approve_user_def map_of_update split: option.splits
          intro!: holds_user_save)
  next
    case (CreateLeague name game_type description now)
    with assms m show ?thesis
      by (auto simp add: create_league_def Let_def split: option.splits
          intro!: holds_user_save)
  next
    case (CreateTournament league_id name start_date max_players prize_pool now)
    with assms m show ?thesis
      by (auto simp add: create_tournament_def Let_def split: option.splits
          intro!: holds_user_save)
  next
    case (Apply tournament_id)
    with assms m show ?thesis
      by (auto simp add: apply_for_tournament_def Let_def split: option.splits
          intro!: holds_user_save)
  next
    case (Start tournament_id clock)
    with assms m show ?thesis
      by (auto simp add: start_tournament_def Let_def
          split: option.splits prod.splits intro!: holds_user_save)
  next
    case (Record match_id winner score now)
    with assms m show ?thesis
      by (auto simp add: record_match_result_def Let_def
          split: option.splits sum.splits list.splits intro!: holds_user_save)
  next
    case (CreateAdvertisement title content cost now)
    with assms m show ?thesis
      by (auto simp add: create_advertisement_def Let_def split: option.splits
          intro!: holds_user_save)
  next
    case Restart
    with assms show ?thesis by (simp add: holds_user_init)
  qed
qed

lemma holds_user_run:
  "holds_user s u r \<Longrightarrow> Approve u \<notin> set ops \<Longrightarrow> holds_user (run s ops) u r"
  unfolding run_def
proof (induction ops arbitrary: s)
  case Nil
  then show ?case by simp
next
  case (Cons op ops)
  then have "holds_user (step s op) u r" by (auto intro: holds_user_step)
  with Cons show ?case by simp
qed

text \<open>
  C6. A successful \<open>register_user\<close> creates the user with \<open>approved\<close> set exactly when the
  role is \<open>Spectator\<close>. After a registration with another role, and after any further
  operations (restarts included) none of which approves that username, \<open>login\<close> with the
  registered password fails with \<open>Account not approved yet\<close> and changes nothing, and
  \<open>login\<close> with any password fails; once \<open>approve_user\<close> has run for the username,
  \<open>login\<close> with the registered password succeeds.
\<close>

theorem approval_gate:
  "(map_of (users s) username = None \<longrightarrow>
      (\<exists>r. map_of (users (snd (register_user s username password name email role now))) username
             = Some r
           \<and> (u_approved r \<longleftrightarrow> role = UserRole_SPECTATOR)))
   \<and> (map_of (users s) username = None \<and> role \<noteq> UserRole_SPECTATOR
        \<and> Approve username \<notin> set ops \<longrightarrow>
      (let s' = run (snd (register_user s username password name email role now)) ops
       in login s' username password = ((False, ''Account not approved yet''), s')
          \<and> (\<forall>pw. fst (fst (login s' username pw)) = False)
          \<and> fst (approve_user s' username) = Inr ()
          \<and> fst (login (snd (approve_user s' username)) username password)
              = (True, ''Login successful'')))"
proof (intro conjI impI)
  assume "map_of (users s) username = None"
  then show "\<exists>r. map_of (users (snd (register_user s username password name email role now)))
                  username = Some r
              \<and> (u_approved r \<longleftrightarrow> role = UserRole_SPECTATOR)"
    by (simp add: register_user_fresh(3))
next
  assume a: "map_of (users s) username = None \<and> role \<noteq> UserRole_SPECTATOR
      \<and> Approve username \<notin> set ops"
  define r where "r = \<lparr>u_username = username, u_password = password, u_name = name,
            u_email = email, u_role = role, u_approved = (role = UserRole_SPECTATOR),
            u_registered_date = Some now\<rparr>"
  define s' where "s' = run (snd (register_user s username password name email role now)) ops"
  from a holds_user_register [of s username password name email role now]
  have "holds_user (snd (register_user s username password name email role now)) username r"
    by (simp add: r_def)
  with a have "holds_user s' username r"
    unfolding s'_def by (simp add: holds_user_run)
  then have m: "map_of (users s') username = Some r" by (simp add: holds_user_def)
  from a have r: "u_password r = password" "\<not> u_approved r" by (simp_all add: r_def)
  have 1: "login s' username password = ((False, ''Account not approved yet''), s')"
    using m r by (simp add: login_def)
  have 2: "\<forall>pw. fst (fst (login s' username pw)) = False"
    using m r by (simp add: login_def)
  have 3: "fst (approve_user s' username) = Inr ()"
    using m by (simp add: approve_user_def)
  have 4: "fst (login (snd (approve_user s' username)) username password)
      = (True, ''Login successful'')"
    using m r by (simp add: approve_user_def login_def map_of_update)
  from 1 2 3 4 show "let s' = run (snd (register_user s username password name email role now)) ops
       in login s' username password = ((False, ''Account not approved yet''), s')
          \<and> (\<forall>pw. fst (fst (login s' username pw)) = False)
          \<and> fst (approve_user s' username) = Inr ()
          \<and> fst (login (snd (approve_user s' username)) username password)
              = (True, ''Login successful'')"
    unfolding s'_def Let_def by blast
qed

text \<open>
  C6 for \<open>A\<close>, registered as \<open>Player\<close> on the first-run store, while another user registers,
  logs in and is approved and the process restarts.
\<close>

theorem approval_gate_witness:
  "map_of (users first_run) ''A'' = None \<and> ''Player'' \<noteq> UserRole_SPECTATOR
   \<and> Approve ''A'' \<notin> set meanwhile
   \<and> map (\<lambda>(k, r). (k, u_approved r))
        (users (snd (register_user first_run ''A'' ''pw'' ''Ann'' ''a@arena.com'' ''Player'' ''t1'')))
      = [(''admin'', True), (''A'', False)]
   \<and> login pending ''A'' ''pw'' = ((False, ''Account not approved yet''), pending)
   \<and> fst (login (snd (approve_user pending ''A'')) ''A'' ''pw'') = (True, ''Login successful'')"
  using approval_gate [of first_run "''A''" "''pw''" "''Ann''" "''a@arena.com''" "''Player''" "''t1''" meanwhile]
  by (simp add: pending_def meanwhile_def first_run_eval default_admin_def register_user_def
      save_data_def UserRole_SPECTATOR_def Let_def)

section \<open>Recording a result\<close>

lemma count_completed_all:
  "(length (filter P xs) = length xs) = list_all P xs"
proof (induction xs)
  case Nil
  then show ?case by simp
next
  case (Cons x xs)
  show ?case
  proof (cases "P x")
    case True
    with Cons show ?thesis by simp
  next
    case False
    have "length (filter P xs) \<le> length xs" by (rule length_filter_le)
    then have "length (filter P xs) \<noteq> Suc (length xs)" by arith
    with False show ?thesis by simp
  qed
qed

lemma winners_of_completed:
  "list_all (is_completed ms) ids \<Longrightarrow>
   \<exists>ws. winners_of ms ids = Inr ws \<and> first_recorded_winner ms ids = (case ws of [] \<Rightarrow> None | w # _ \<Rightarrow> Some w)"
proof (induction ids)
  case Nil
  then show ?case by simp
next
  case (Cons m ids)
  then obtain ws where ws: "winners_of ms ids = Inr ws"
    and frw: "first_recorded_winner ms ids = (case ws of [] \<Rightarrow> None | w # _ \<Rightarrow> Some w)"
    by auto
  from Cons.prems obtain r where r: "map_of ms m = Some r"
    by (auto simp add: is_completed_def split: option.splits)
  show ?case
    by (cases "m_winner r") (simp_all add: r ws frw recorded_winner_def)
qed


lemma record_match_result_found:
  assumes m: "map_of (matches s) match_id = Some m"
    and t: "map_of (tournaments s) (m_tournament_id m) = Some t"
    and m'_def: "m' = m\<lparr>m_status := MatchStatus_COMPLETED, m_winner := Some winner,
                    m_score := score, m_completed_date := Some now\<rparr>"
    and ms'_def: "ms' = AList.update match_id m' (matches s)"
    and t'_def: "t' = (if all_completed ms' (t_matches t)
                  then (case first_recorded_winner ms' (t_matches t) of
                          None \<Rightarrow> t
                        | Some w \<Rightarrow> t\<lparr>t_winner := Some w, t_status := TournamentStatus_COMPLETED\<rparr>)
                  else t)"
  shows "record_match_result s match_id winner score now =
           (Inr (True, ''Match result recorded''),
            save_data (s\<lparr>matches := ms',
                         tournaments := AList.update (m_tournament_id m) t' (tournaments s)\<rparr>))"
proof (cases "all_completed ms' (t_matches t)")
  case True
  then have cnt: "length (filter (is_completed ms') (t_matches t)) = length (t_matches t)"
    by (simp add: count_completed_all all_completed_def)
  from True obtain ws where ws: "winners_of ms' (t_matches t) = Inr ws"
    and frw: "first_recorded_winner ms' (t_matches t) = (case ws of [] \<Rightarrow> None | w # _ \<Rightarrow> Some w)"
    using winners_of_completed [of ms' "t_matches t"] by (auto simp add: all_completed_def)
  have triv: "AList.update (m_tournament_id m) t (tournaments s) = tournaments s"
    using t by (simp add: update_triv)
  show ?thesis
  proof (cases ws)
    case Nil
    with True frw have "t' = t" by (simp add: t'_def)
    with Nil m t cnt ws show ?thesis
      unfolding ms'_def m'_def
      by (simp add: record_match_result_def Let_def triv)
  next
    case (Cons w rest)
    with True frw have "t' = t\<lparr>t_winner := Some w, t_status := TournamentStatus_COMPLETED\<rparr>"
      by (simp add: t'_def)
    with Cons m t cnt ws show ?thesis
      unfolding ms'_def m'_def
      by (simp add: record_match_result_def Let_def)
  qed
next
  case False
  then have cnt: "length (filter (is_completed ms') (t_matches t)) \<noteq> length (t_matches t)"
    by (simp add: count_completed_all all_completed_def)
  have triv: "AList.update (m_tournament_id m) t (tournaments s) = tournaments s"
    using t by (simp add: update_triv)
  from False have "t' = t" by (simp add: t'_def)
  with m t cnt show ?thesis
    unfolding ms'_def m'_def
    by (simp add: record_match_result_def Let_def triv)
qed

lemma cup_two_eval:
  "tournaments cup_two =
    [(''TOUR_1'', \<lparr>t_tournament_id = ''TOUR_1'', t_league_id = ''LEAGUE_1'', t_name = ''Cup'',
       t_start_date = ''2024-03-01'', t_max_players = 8, t_prize_pool = ''100'',
       t_status = ''Open for Registration'', t_participants = [''A'', ''B''],
       t_matches = [], t_winner = None,
       t_created_by = ''admin'', t_created_date = ''2024-01-15T10:00:00''\<rparr>)]"
  "matches cup_two = []"
  by (simp_all add: scenario_defs op_defs)

lemma cup_started_eval:
  "tournaments cup_started = [(''TOUR_1'', cup_started_tournament)]"
  "matches cup_started = [(''TOUR_1_MATCH_1'', cup_started_match)]"
  by (simp_all add: cup_started_def run_def cup_two_eval start_tournament_def
      create_matches.simps save_data_def Let_def noon_def decimal.simps digit_def
      cup_started_tournament_def cup_started_match_def
      MatchStatus_SCHEDULED_def TournamentStatus_IN_PROGRESS_def)

lemmas record_eval_defs =
  record_match_result_def Let_def cup_started_tournament_def cup_started_match_def
  is_completed_def MatchStatus_COMPLETED_def TournamentStatus_COMPLETED_def

lemma cup_done_eval:
  "tournaments cup_done =
     [(''TOUR_1'', cup_started_tournament\<lparr>t_winner := Some ''A'', t_status := ''Completed''\<rparr>)]"
  "matches cup_done =
     [(''TOUR_1_MATCH_1'', cup_started_match\<lparr>m_status := ''Completed'', m_winner := Some ''A'',
         m_score := ''2-1'', m_completed_date := Some ''2024-03-01T13:00:00''\<rparr>)]"
  by (simp_all add: cup_done_def run_def cup_started_eval record_eval_defs)

text \<open>
  C3, as stated, fails: in the started tournament of the scenario, whose only match is
  \<open>TOUR_1_MATCH_1\<close>, recording a result with the empty string as winner completes the
  match, so that every match of the tournament is \<open>Completed\<close>, and the tournament stays
  \<open>In Progress\<close> with no winner.
\<close>

theorem all_completed_without_winner:
  "map_of (matches no_winner) ''TOUR_1_MATCH_1''
     = Some (cup_started_match\<lparr>m_status := ''Completed'', m_winner := Some '''',
               m_score := ''0-0'', m_completed_date := Some ''2024-03-01T13:00:00''\<rparr>)
   \<and> map_of (tournaments no_winner) ''TOUR_1'' = Some cup_started_tournament
   \<and> t_matches cup_started_tournament = [''TOUR_1_MATCH_1'']
   \<and> t_status cup_started_tournament = ''In Progress''"
  by (simp add: no_winner_def cup_started_eval record_eval_defs)

text \<open>
  C3, amended. When the match and its tournament exist, \<open>record_match_result\<close> succeeds
  and the tournament becomes \<open>Completed\<close> exactly when, after the result is stored, every
  match of its match-id list is \<open>Completed\<close> and at least one of them has a recorded
  (non-empty) winner; its winner is then the winner of the first such match of the list.
  Otherwise the tournament is left as it was.
\<close>

theorem record_result_completion:
  "map_of (matches s) match_id = Some m \<and> map_of (tournaments s) (m_tournament_id m) = Some t
   \<longrightarrow> (let s' = snd (record_match_result s match_id winner score now)
        in fst (record_match_result s match_id winner score now)
             = Inr (True, ''Match result recorded'')
           \<and> map_of (tournaments s') (m_tournament_id m) =
               Some (if all_completed (matches s') (t_matches t)
                        \<and> first_recorded_winner (matches s') (t_matches t) \<noteq> None
                     then t\<lparr>t_winner := first_recorded_winner (matches s') (t_matches t),
                            t_status := TournamentStatus_COMPLETED\<rparr>
                     else t))"
proof
  assume a: "map_of (matches s) match_id = Some m
      \<and> map_of (tournaments s) (m_tournament_id m) = Some t"
  define m' where "m' = m\<lparr>m_status := MatchStatus_COMPLETED, m_winner := Some winner,
                    m_score := score, m_completed_date := Some now\<rparr>"
  define ms' where "ms' = AList.update match_id m' (matches s)"
  define t' where "t' = (if all_completed ms' (t_matches t)
                  then (case first_recorded_winner ms' (t_matches t) of
                          None \<Rightarrow> t
                        | Some w \<Rightarrow> t\<lparr>t_winner := Some w, t_status := TournamentStatus_COMPLETED\<rparr>)
                  else t)"
  define s' where "s' = snd (record_match_result s match_id winner score now)"
  from a have res: "record_match_result s match_id winner score now =
           (Inr (True, ''Match result recorded''),
            save_data (s\<lparr>matches := ms',
                         tournaments := AList.update (m_tournament_id m) t' (tournaments s)\<rparr>))"
    by (intro record_match_result_found [OF _ _ m'_def ms'_def t'_def]) simp_all
  have 1: "fst (record_match_result s match_id winner score now)
      = Inr (True, ''Match result recorded'')"
    by (simp add: res)
  have 2: "matches s' = ms'" by (simp add: s'_def res)
  have 3: "map_of (tournaments s') (m_tournament_id m) = Some t'"
    by (simp add: s'_def res map_of_update)
  have 4: "t' = (if all_completed ms' (t_matches t)
                        \<and> first_recorded_winner ms' (t_matches t) \<noteq> None
                     then t\<lparr>t_winner := first_recorded_winner ms' (t_matches t),
                            t_status := TournamentStatus_COMPLETED\<rparr>
                     else t)"
    by (cases "first_recorded_winner ms' (t_matches t)") (simp_all add: t'_def)
  have "fst (record_match_result s match_id winner score now)
             = Inr (True, ''Match result recorded'')
           \<and> map_of (tournaments s') (m_tournament_id m) =
               Some (if all_completed (matches s') (t_matches t)
                        \<and> first_recorded_winner (matches s') (t_matches t) \<noteq> None
                     then t\<lparr>t_winner := first_recorded_winner (matches s') (t_matches t),
                            t_status := TournamentStatus_COMPLETED\<rparr>
                     else t)"
    unfolding 2 3 using 1 4 by simp
  then show "let s' = snd (record_match_result s match_id winner score now)
        in fst (record_match_result s match_id winner score now)
             = Inr (True, ''Match result recorded'')
           \<and> map_of (tournaments s') (m_tournament_id m) =
               Some (if all_completed (matches s') (t_matches t)
                        \<and> first_recorded_winner (matches s') (t_matches t) \<noteq> None
                     then t\<lparr>t_winner := first_recorded_winner (matches s') (t_matches t),
                            t_status := TournamentStatus_COMPLETED\<rparr>
                     else t)"
    unfolding s'_def Let_def .
qed

text \<open>C3, amended, at the first result of the scenario: \<open>A\<close> wins the only match.\<close>

theorem record_result_completion_witness:
  "(map_of (matches cup_started) ''TOUR_1_MATCH_1'' = Some cup_started_match
    \<and> map_of (tournaments cup_started) (m_tournament_id cup_started_match)
        = Some cup_started_tournament)
   \<and> (let s' = snd (record_match_result cup_started ''TOUR_1_MATCH_1'' ''A'' ''2-1''
                      ''2024-03-01T13:00:00'')
      in fst (record_match_result cup_started ''TOUR_1_MATCH_1'' ''A'' ''2-1''
                ''2024-03-01T13:00:00'')
           = Inr (True, ''Match result recorded'')
         \<and> map_of (tournaments s') (m_tournament_id cup_started_match) =
             Some (if all_completed (matches s') (t_matches cup_started_tournament)
                      \<and> first_recorded_winner (matches s') (t_matches cup_started_tournament)
                          \<noteq> None
                   then cup_started_tournament
                          \<lparr>t_winner := first_recorded_winner (matches s')
                                         (t_matches cup_started_tournament),
                           t_status := TournamentStatus_COMPLETED\<rparr>
                   else cup_started_tournament))
   \<and> map_of (tournaments cup_done) ''TOUR_1''
       = Some (cup_started_tournament\<lparr>t_winner := Some ''A'', t_status := ''Completed''\<rparr>)"
proof -
  have h: "map_of (matches cup_started) ''TOUR_1_MATCH_1'' = Some cup_started_match
    \<and> map_of (tournaments cup_started) (m_tournament_id cup_started_match)
        = Some cup_started_tournament"
    by (simp add: cup_started_eval cup_started_match_def)
  have e: "map_of (tournaments cup_done) ''TOUR_1''
       = Some (cup_started_tournament\<lparr>t_winner := Some ''A'', t_status := ''Completed''\<rparr>)"
    by (simp add: cup_done_eval)
  from h e record_result_completion [of cup_started "''TOUR_1_MATCH_1''" cup_started_match
      cup_started_tournament "''A''" "''2-1''" "''2024-03-01T13:00:00''"]
  show ?thesis by blast
qed

lemma all_completed_update:
  assumes "all_completed ms ids" and "m_status m' = MatchStatus_COMPLETED"
  shows "all_completed (AList.update k m' ms) ids"
  using assms
  by (auto simp add: all_completed_def list_all_iff is_completed_def map_of_update)

text \<open>
  C10. \<open>record_match_result\<close> does not look at the match's status: on a match that is
  already \<open>Completed\<close> it succeeds again and stores the new winner, score and completion
  date over the old ones. The completion computation runs again: when all matches of the
  tournament were completed and this match heads the match-id list, a non-empty winner
  becomes the tournament's winner, whoever it was before.
\<close>

theorem record_result_overwrites:
  "map_of (matches s) match_id = Some m \<and> m_status m = MatchStatus_COMPLETED
     \<and> map_of (tournaments s) (m_tournament_id m) = Some t
   \<longrightarrow> (let s' = snd (record_match_result s match_id winner score now)
        in fst (record_match_result s match_id winner score now)
             = Inr (True, ''Match result recorded'')
           \<and> map_of (matches s') match_id
               = Some (m\<lparr>m_status := MatchStatus_COMPLETED, m_winner := Some winner,
                         m_score := score, m_completed_date := Some now\<rparr>)
           \<and> (all_completed (matches s) (t_matches t)
                 \<and> (\<exists>rest. t_matches t = match_id # rest) \<and> winner \<noteq> []
               \<longrightarrow> map_of (tournaments s') (m_tournament_id m)
                     = Some (t\<lparr>t_winner := Some winner,
                               t_status := TournamentStatus_COMPLETED\<rparr>)))"
proof
  assume a: "map_of (matches s) match_id = Some m \<and> m_status m = MatchStatus_COMPLETED
     \<and> map_of (tournaments s) (m_tournament_id m) = Some t"
  define m' where "m' = m\<lparr>m_status := MatchStatus_COMPLETED, m_winner := Some winner,
                    m_score := score, m_completed_date := Some now\<rparr>"
  define ms' where "ms' = AList.update match_id m' (matches s)"
  define t' where "t' = (if all_completed ms' (t_matches t)
                  then (case first_recorded_winner ms' (t_matches t) of
                          None \<Rightarrow> t
                        | Some w \<Rightarrow> t\<lparr>t_winner := Some w, t_status := TournamentStatus_COMPLETED\<rparr>)
                  else t)"
  define s' where "s' = snd (record_match_result s match_id winner score now)"
  from a have res: "record_match_result s match_id winner score now =
           (Inr (True, ''Match result recorded''),
            save_data (s\<lparr>matches := ms',
                         tournaments := AList.update (m_tournament_id m) t' (tournaments s)\<rparr>))"
    by (intro record_match_result_found [OF _ _ m'_def ms'_def t'_def]) simp_all
  have 1: "fst (record_match_result s match_id winner score now)
      = Inr (True, ''Match result recorded'')"
    by (simp add: res)
  have 2: "map_of (matches s') match_id = Some m'"
    by (simp add: s'_def res ms'_def map_of_update)
  have 3: "map_of (tournaments s') (m_tournament_id m) = Some t'"
    by (simp add: s'_def res map_of_update)
  have 4: "t' = t\<lparr>t_winner := Some winner, t_status := TournamentStatus_COMPLETED\<rparr>"
    if b: "all_completed (matches s) (t_matches t)
           \<and> (\<exists>rest. t_matches t = match_id # rest) \<and> winner \<noteq> []"
  proof -
    have "m_status m' = MatchStatus_COMPLETED" by (simp add: m'_def)
    with b have all: "all_completed ms' (t_matches t)"
      unfolding ms'_def by (simp add: all_completed_update)
    from b obtain rest where rest: "t_matches t = match_id # rest" by blast
    from b have "recorded_winner ms' match_id = Some winner"
      by (simp add: recorded_winner_def ms'_def map_of_update m'_def)
    then have "first_recorded_winner ms' (t_matches t) = Some winner"
      by (simp add: rest)
    with all show ?thesis by (simp add: t'_def)
  qed
  have "fst (record_match_result s match_id winner score now)
             = Inr (True, ''Match result recorded'')
           \<and> map_of (matches s') match_id = Some m'
           \<and> (all_completed (matches s) (t_matches t)
                 \<and> (\<exists>rest. t_matches t = match_id # rest) \<and> winner \<noteq> []
               \<longrightarrow> map_of (tournaments s') (m_tournament_id m)
                     = Some (t\<lparr>t_winner := Some winner,
                               t_status := TournamentStatus_COMPLETED\<rparr>))"
    using 1 2 3 4 by simp
  then show "let s' = snd (record_match_result s match_id winner score now)
        in fst (record_match_result s match_id winner score now)
             = Inr (True, ''Match result recorded'')
           \<and> map_of (matches s') match_id
               = Some (m\<lparr>m_status := MatchStatus_COMPLETED, m_winner := Some winner,
                         m_score := score, m_completed_date := Some now\<rparr>)
           \<and> (all_completed (matches s) (t_matches t)
                 \<and> (\<exists>rest. t_matches t = match_id # rest) \<and> winner \<noteq> []
               \<longrightarrow> map_of (tournaments s') (m_tournament_id m)
                     = Some (t\<lparr>t_winner := Some winner,
                               t_status := TournamentStatus_COMPLETED\<rparr>))"
    unfolding s'_def m'_def Let_def .
qed

text \<open>
  C10 on the completed tournament of the scenario: \<open>A\<close> had won; a second result for the
  same match makes \<open>B\<close> the tournament's winner.
\<close>

theorem record_result_overwrites_witness:
  "(map_of (matches cup_done) ''TOUR_1_MATCH_1'' = Some cup_done_match
    \<and> m_status cup_done_match = MatchStatus_COMPLETED
    \<and> map_of (tournaments cup_done) (m_tournament_id cup_done_match) = Some cup_done_tournament)
   \<and> (all_completed (matches cup_done) (t_matches cup_done_tournament)
      \<and> (\<exists>rest. t_matches cup_done_tournament = ''TOUR_1_MATCH_1'' # rest) \<and> ''B'' \<noteq> [])
   \<and> t_status cup_done_tournament = TournamentStatus_COMPLETED
   \<and> t_winner cup_done_tournament = Some ''A''
   \<and> fst (record_match_result cup_done ''TOUR_1_MATCH_1'' ''B'' ''0-2'' ''2024-03-02T13:00:00'')
       = Inr (True, ''Match result recorded'')
   \<and> map_of (matches rematch) ''TOUR_1_MATCH_1''
       = Some (cup_done_match\<lparr>m_status := MatchStatus_COMPLETED, m_winner := Some ''B'',
                 m_score := ''0-2'', m_completed_date := Some ''2024-03-02T13:00:00''\<rparr>)
   \<and> map_of (tournaments rematch) (m_tournament_id cup_done_match)
       = Some (cup_done_tournament\<lparr>t_winner := Some ''B'',
                 t_status := TournamentStatus_COMPLETED\<rparr>)"
proof -
  have h: "map_of (matches cup_done) ''TOUR_1_MATCH_1'' = Some cup_done_match
    \<and> m_status cup_done_match = MatchStatus_COMPLETED
    \<and> map_of (tournaments cup_done) (m_tournament_id cup_done_match) = Some cup_done_tournament"
    by (simp add: cup_done_eval cup_done_match_def cup_done_tournament_def
        cup_started_match_def MatchStatus_COMPLETED_def)
  have g: "all_completed (matches cup_done) (t_matches cup_done_tournament)
      \<and> (\<exists>rest. t_matches cup_done_tournament = ''TOUR_1_MATCH_1'' # rest) \<and> ''B'' \<noteq> []"
    by (simp add: cup_done_eval cup_done_tournament_def cup_started_tournament_def
        cup_started_match_def all_completed_def is_completed_def MatchStatus_COMPLETED_def)
  have e: "t_status cup_done_tournament = TournamentStatus_COMPLETED
      \<and> t_winner cup_done_tournament = Some ''A''"
    by (simp add: cup_done_tournament_def TournamentStatus_COMPLETED_def)
  from h g e record_result_overwrites [of cup_done "''TOUR_1_MATCH_1''" cup_done_match
      cup_done_tournament "''B''" "''0-2''" "''2024-03-02T13:00:00''"]
  show ?thesis unfolding rematch_def Let_def by blast
qed

section \<open>Persistence round trip\<close>

lemma admin_init: "map_of (users (ArenaSystem_init f)) ''admin'' \<noteq> None"
  by (simp add: ArenaSystem_init_def Let_def map_of_update)

lemma admin_step:
  assumes "map_of (users s) ''admin'' \<noteq> None"
  shows "map_of (users (step s op)) ''admin'' \<noteq> None"
proof (cases op)
  case (Register username password name email role now)
  with assms show ?thesis by (simp add: register_user_def map_of_update)
next
  case (Login username password)
  with assms show ?thesis by (simp add: login_def split: option.splits)
next
  case (Approve username)
  with assms show ?thesis by (simp add: approve_user_def map_of_update split: option.splits)
next
  case (CreateLeague name game_type description now)
  with assms show ?thesis by (simp add: create_league_def Let_def split: option.splits)
next
  case (CreateTournament league_id name start_date max_players prize_pool now)
  with assms show ?thesis by (simp add: create_tournament_def Let_def split: option.splits)
next
  case (Apply tournament_id)
  with assms show ?thesis by (simp add: apply_for_tournament_def Let_def split: option.splits)
next
  case (Start tournament_id clock)
  with assms show ?thesis
    by (simp add: start_tournament_def Let_def split: option.splits prod.splits)
next
  case (Record match_id winner score now)
  with assms show ?thesis
    by (simp add: record_match_result_def Let_def split: option.splits sum.splits list.splits)
next
  case (CreateAdvertisement title content cost now)
  with assms show ?thesis by (simp add: create_advertisement_def Let_def split: option.splits)
next
  case Restart
  then show ?thesis by (simp add: admin_init)
qed

lemma admin_run: "map_of (users s) ''admin'' \<noteq> None \<Longrightarrow> map_of (users (run s ops)) ''admin'' \<noteq> None"
  unfolding run_def
proof (induction ops arbitrary: s)
  case Nil
  then show ?case by simp
next
  case (Cons op ops)
  from Cons.prems have "map_of (users (step s op)) ''admin'' \<noteq> None" by (rule admin_step)
  then show ?case using Cons.IH by simp
qed

lemma load_saved:
  "collections (load_data (fresh_store (data_file (save_data s)))) = collections s"
  by (simp add: collections_def load_data_def fresh_store_def save_data_def get_or_empty_def)

lemma init_saved:
  "map_of (users s) ''admin'' \<noteq> None \<Longrightarrow>
   collections (ArenaSystem_init (data_file (save_data s))) = collections s"
  by (auto simp add: collections_def ArenaSystem_init_def load_data_def save_data_def
      get_or_empty_def Let_def)

lemma number_eq_same: "number_eq x x = (x \<noteq> NaN)"
  by (cases x) simp_all

lemma advertisements_eq_same:
  "advertisements_eq xs xs = list_all (\<lambda>x. a_cost (snd x) \<noteq> NaN) xs"
  by (simp add: advertisements_eq_def list_all2_same list_all_iff advertisement_eq_def
      number_eq_same)

lemma collections_eq_same:
  assumes "collections s' = collections s" and "no_nan_cost s"
  shows "collections_eq s' s"
  using assms
  by (simp add: collections_def collections_eq_def advertisements_eq_same no_nan_cost_def)

lemma nan_store_eval: "advertisements nan_store = [(''AD_1'', nan_advertisement)]"
  by (simp add: nan_store_def nan_advertisement_def first_run_eval default_admin_def
      create_advertisement_def op_defs)

text \<open>
  C4, as stated, fails: an advertisement created with the cost NaN (the dashboard's
  \<^verbatim>\<open>float("nan")\<close>) is saved and read back as NaN, and NaN does not compare equal to NaN,
  so the reloaded advertisements are not per-field equal to the originals.
\<close>

theorem nan_cost_round_trip:
  "map_of (advertisements nan_store) ''AD_1'' = Some nan_advertisement
   \<and> map_of (advertisements (load_data (fresh_store (data_file (save_data nan_store))))) ''AD_1''
       = Some nan_advertisement
   \<and> \<not> number_eq (a_cost nan_advertisement) (a_cost nan_advertisement)
   \<and> \<not> collections_eq (load_data (fresh_store (data_file (save_data nan_store)))) nan_store"
  by (simp add: nan_store_eval load_data_def fresh_store_def save_data_def get_or_empty_def
      collections_eq_def advertisements_eq_def advertisement_eq_def nan_advertisement_def)

text \<open>
  C4, amended. For a store in which no advertisement's cost is NaN, saving it and loading
  the saved document into a fresh store gives five collections per-field equal to the
  originals. The same holds through \<open>ArenaSystem.__init__\<close> for every such store reached
  from a start of the process by the public operations: a reached store has its \<open>admin\<close>,
  so the bootstrap adds nothing to what was loaded.
\<close>

theorem persistence_round_trip:
  "(no_nan_cost s
      \<longrightarrow> collections_eq (load_data (fresh_store (data_file (save_data s)))) s)
   \<and> (no_nan_cost (run (ArenaSystem_init f) ops)
      \<longrightarrow> collections_eq
            (ArenaSystem_init (data_file (save_data (run (ArenaSystem_init f) ops))))
            (run (ArenaSystem_init f) ops))"
  by (simp add: collections_eq_same load_saved init_saved admin_run admin_init)

lemma sale_store_eval:
  "advertisements sale_store =
     [(''AD_1'', \<lparr>a_ad_id = ''AD_1'', a_title = ''Sale'', a_content = ''Boards'',
         a_cost = FloatNumber 5, a_advertiser = ''admin'',
         a_created_date = ''2024-01-16T10:00:00'', a_active = True\<rparr>)]"
  by (simp add: sale_store_def sale_ops_def ArenaSystem_init_def load_data_def default_admin_def
      create_league_def create_advertisement_def op_defs)

text \<open>
  C4, amended, on a run that leaves users, a league, an advertisement of cost 5.0 and a
  saved document behind.
\<close>

theorem persistence_round_trip_witness:
  "no_nan_cost sale_store
   \<and> collections_eq (load_data (fresh_store (data_file (save_data sale_store)))) sale_store
   \<and> collections_eq (ArenaSystem_init (data_file (save_data sale_store))) sale_store"
proof -
  have h: "no_nan_cost sale_store"
    by (simp add: no_nan_cost_def sale_store_eval)
  from h persistence_round_trip [of sale_store NoFile sale_ops]
  show ?thesis unfolding sale_store_def by blast
qed

section \<open>The roster invariant\<close>

lemma list_all_update:
  "list_all P al \<Longrightarrow> P (k, v) \<Longrightarrow> list_all P (AList.update k v al)"
  by (induction al) auto

lemma list_all_map_of:
  "list_all P al \<Longrightarrow> map_of al k = Some v \<Longrightarrow> P (k, v)"
  by (auto simp add: list_all_iff dest: map_of_SomeD)

lemma rosters_ok_save:
  "list_all (\<lambda>(k, t). roster_ok t) (tournaments s) \<Longrightarrow> rosters_ok (save_data s)"
  by (simp add: rosters_ok_def save_data_def get_or_empty_def)

lemma rosters_ok_update [simp]:
  "rosters_ok (s\<lparr>current_user := c\<rparr>) = rosters_ok s"
  "rosters_ok (s\<lparr>matches := ms\<rparr>) = rosters_ok s"
  by (simp_all add: rosters_ok_def)

lemma roster_ok_update [simp]:
  "roster_ok (t\<lparr>t_status := st\<rparr>) = roster_ok t"
  "roster_ok (t\<lparr>t_matches := tm\<rparr>) = roster_ok t"
  "roster_ok (t\<lparr>t_winner := w\<rparr>) = roster_ok t"
  by (simp_all add: roster_ok_def)

lemma roster_ok_append:
  assumes "roster_ok t" and "u \<notin> set (t_participants t)"
    and "\<not> t_max_players t \<le> int (length (t_participants t))"
  shows "roster_ok (t\<lparr>t_participants := t_participants t @ [u]\<rparr>)"
  using assms by (simp add: roster_ok_def)

lemma rosters_ok_init:
  assumes "rosters_ok s"
  shows "rosters_ok (ArenaSystem_init (data_file s))"
  using assms
  by (cases "data_file s")
     (simp_all add: rosters_ok_def ArenaSystem_init_def load_data_def Let_def)

lemma rosters_ok_step:
  assumes "rosters_ok s"
  shows "rosters_ok (step s op)"
proof -
  from assms have ts: "list_all (\<lambda>(k, t). roster_ok t) (tournaments s)"
    by (simp add: rosters_ok_def)
  have found: "\<forall>k t. map_of (tournaments s) k = Some t \<longrightarrow> roster_ok t"
    using list_all_map_of [OF ts] by auto
  show ?thesis
  proof (cases op)
    case (Register username password name email role now)
    with assms ts show ?thesis
      by (auto simp add: register_user_def intro!: rosters_ok_save)
  next
    case (Login username password)
    with assms show ?thesis
      by (auto simp add: login_def split: option.splits)
  next
    case (Approve username)
    with assms ts show ?thesis
      by (auto simp add: approve_user_def split: option.splits intro!: rosters_ok_save)
  next
    case (CreateLeague name game_type description now)
    with assms ts show ?thesis
      by (auto simp add: create_league_def Let_def split: option.splits intro!: rosters_ok_save)
  next
    case (CreateTournament league_id name start_date max_players prize_pool now)
    with assms ts show ?thesis
      by (auto simp add: create_tournament_def Let_def roster_ok_def split: option.splits
          intro!: rosters_ok_save list_all_update)
  next
    case (Apply tournament_id)
    with assms ts found show ?thesis
      by (auto simp add: apply_for_tournament_def Let_def split: option.splits
          intro!: rosters_ok_save list_all_update roster_ok_append)
  next
    case (Start tournament_id clock)
    with assms ts found show ?thesis
      by (auto simp add: start_tournament_def Let_def split: option.splits prod.splits
          intro!: rosters_ok_save list_all_update)
  next
    case (Record match_id winner score now)
    with assms ts found show ?thesis
      by (auto simp add: record_match_result_def Let_def
          split: option.splits sum.splits list.splits
          intro!: rosters_ok_save list_all_update)
  next
    case (CreateAdvertisement title content cost now)
    with assms ts show ?thesis
      by (auto simp add: create_advertisement_def Let_def split: option.splits
          intro!: rosters_ok_save)
  next
    case Restart
    with assms show ?thesis by (simp add: rosters_ok_init)
  qed
qed

lemma rosters_ok_run: "rosters_ok s \<Longrightarrow> rosters_ok (run s ops)"
  unfolding run_def
proof (induction ops arbitrary: s)
  case Nil
  then show ?case by simp
next
  case (Cons op ops)
  from Cons.prems have "rosters_ok (step s op)" by (rule rosters_ok_step)
  then show ?case using Cons.IH by simp
qed

lemma rosters_ok_first_run: "rosters_ok first_run"
  by (simp add: rosters_ok_def first_run_eval)

text \<open>
  C8, as stated, fails: a tournament created with \<open>max_players = -1\<close> has no participants,
  and 0 exceeds -1.
\<close>

theorem negative_capacity:
  "map_of (tournaments negative_cup) ''TOUR_1'' = Some negative_cup_tournament
   \<and> \<not> int (length (t_participants negative_cup_tournament))
         \<le> t_max_players negative_cup_tournament"
  by (simp add: negative_cup_def negative_cup_tournament_def first_run_eval default_admin_def
      op_defs)

text \<open>
  C8, amended. In every store reached from the first-run store by the public operations
  (restarts included), every tournament's participant list has no username twice and its
  length is at most \<open>max_players\<close>, or 0 when \<open>max_players\<close> is negative.
  \<open>apply_for_tournament\<close> keeps it so: for a current user already in the list it returns
  the failure \<open>Already registered for this tournament\<close>, and for a list that has reached
  \<open>max_players\<close> the failure \<open>Tournament is full\<close>, both without changing the store.
\<close>

theorem roster_invariant:
  "(map_of (tournaments (run first_run ops)) tournament_id = Some t
      \<longrightarrow> distinct (t_participants t)
          \<and> int (length (t_participants t)) \<le> max 0 (t_max_players t))
   \<and> (map_of (tournaments s) tournament_id' = Some t' \<and> current_user s = Some cu
        \<and> u_username cu \<in> set (t_participants t')
      \<longrightarrow> apply_for_tournament s tournament_id'
            = (Inr (False, ''Already registered for this tournament''), s))
   \<and> (map_of (tournaments s) tournament_id' = Some t' \<and> current_user s = Some cu
        \<and> u_username cu \<notin> set (t_participants t')
        \<and> t_max_players t' \<le> int (length (t_participants t'))
      \<longrightarrow> apply_for_tournament s tournament_id' = (Inr (False, ''Tournament is full''), s))"
proof (intro conjI impI)
  assume a: "map_of (tournaments (run first_run ops)) tournament_id = Some t"
  have "rosters_ok (run first_run ops)"
    by (rule rosters_ok_run) (rule rosters_ok_first_run)
  then have "list_all (\<lambda>(k, t). roster_ok t) (tournaments (run first_run ops))"
    by (simp add: rosters_ok_def)
  from list_all_map_of [OF this a] have r: "roster_ok t" by simp
  from r show "distinct (t_participants t)" by (simp add: roster_ok_def)
  from r show "int (length (t_participants t)) \<le> max 0 (t_max_players t)"
    by (simp add: roster_ok_def)
next
  assume "map_of (tournaments s) tournament_id' = Some t' \<and> current_user s = Some cu
        \<and> u_username cu \<in> set (t_participants t')"
  then show "apply_for_tournament s tournament_id'
            = (Inr (False, ''Already registered for this tournament''), s)"
    by (simp add: apply_for_tournament_def)
next
  assume "map_of (tournaments s) tournament_id' = Some t' \<and> current_user s = Some cu
        \<and> u_username cu \<notin> set (t_participants t')
        \<and> t_max_players t' \<le> int (length (t_participants t'))"
  then show "apply_for_tournament s tournament_id' = (Inr (False, ''Tournament is full''), s)"
    by (simp add: apply_for_tournament_def)
qed

lemma cup_two_ops_run: "run first_run cup_two_ops = cup_two"
  by (simp add: cup_two_ops_def cup_two_def cup_one_def cup_announced_def run_def)

lemma cup_one_user: "current_user cup_one = Some user_A"
  by (simp add: user_A_def scenario_defs op_defs)

lemma full_cup_eval:
  "tournaments full_cup = [(''TOUR_1'', full_cup_tournament)]"
  "current_user full_cup = Some user_A"
  by (simp_all add: full_cup_def full_cup_tournament_def user_A_def first_run_eval
      default_admin_def op_defs)

text \<open>
  C8, amended, on the scenario: the tournament with \<open>A\<close> and \<open>B\<close>; \<open>A\<close> applying a second
  time; and \<open>A\<close> applying to a tournament of capacity 1 that the admin has filled.
\<close>

theorem roster_invariant_witness:
  "(map_of (tournaments (run first_run cup_two_ops)) ''TOUR_1'' = Some cup_two_tournament
    \<and> distinct (t_participants cup_two_tournament)
    \<and> int (length (t_participants cup_two_tournament))
        \<le> max 0 (t_max_players cup_two_tournament))
   \<and> (map_of (tournaments cup_one) ''TOUR_1'' = Some cup_one_tournament
      \<and> current_user cup_one = Some user_A
      \<and> u_username user_A \<in> set (t_participants cup_one_tournament)
      \<and> apply_for_tournament cup_one ''TOUR_1''
          = (Inr (False, ''Already registered for this tournament''), cup_one))
   \<and> (map_of (tournaments full_cup) ''TOUR_1'' = Some full_cup_tournament
      \<and> current_user full_cup = Some user_A
      \<and> u_username user_A \<notin> set (t_participants full_cup_tournament)
      \<and> t_max_players full_cup_tournament \<le> int (length (t_participants full_cup_tournament))
      \<and> apply_for_tournament full_cup ''TOUR_1'' = (Inr (False, ''Tournament is full''), full_cup))"
proof -
  have h1: "map_of (tournaments (run first_run cup_two_ops)) ''TOUR_1'' = Some cup_two_tournament"
    by (simp add: cup_two_ops_run cup_two_eval cup_two_tournament_def)
  have h2: "map_of (tournaments cup_one) ''TOUR_1'' = Some cup_one_tournament
      \<and> current_user cup_one = Some user_A
      \<and> u_username user_A \<in> set (t_participants cup_one_tournament)"
    by (simp add: cup_one_eval cup_one_user cup_one_tournament_def user_A_def)
  have h3: "map_of (tournaments full_cup) ''TOUR_1'' = Some full_cup_tournament
      \<and> current_user full_cup = Some user_A
      \<and> u_username user_A \<notin> set (t_participants full_cup_tournament)
      \<and> t_max_players full_cup_tournament \<le> int (length (t_participants full_cup_tournament))"
    by (simp add: full_cup_eval full_cup_tournament_def user_A_def)
  from h1 h2 h3
    roster_invariant [where ops = cup_two_ops and tournament_id = "''TOUR_1''"
      and t = cup_two_tournament and s = cup_one and tournament_id' = "''TOUR_1''"
      and t' = cup_one_tournament and cu = user_A]
    roster_invariant [where ops = cup_two_ops and tournament_id = "''TOUR_1''"
      and t = cup_two_tournament and s = full_cup and tournament_id' = "''TOUR_1''"
      and t' = full_cup_tournament and cu = user_A]
  show ?thesis by blast
qed

end
